theory Spec2Isabelle
  imports Main "HOL-Library.Multiset"
begin

section \<open>Data model of \<open>src/lib/languages/load.ts\<close>\<close>

text \<open>
  The module imports \<open>Language\<close>, \<open>Card\<close>, \<open>Tag\<close> and \<open>seededShuffle\<close> from files that
  are not part of the sources at hand. \<open>load.ts\<close> uses exactly the members
  \<open>Language.FI\<close> and \<open>Language.EN\<close>, and builds a \<open>Record<Language, LanguageData>\<close> from
  these two keys alone, so the enumeration has these two members.
\<close>

datatype Language = FI | EN

text \<open>\<open>Object.values(Language)\<close>, in the order in which \<open>load.ts\<close> names the members.\<close>

definition Language_values :: "Language list" where
  "Language_values = [FI, EN]"

text \<open>
  A card has a tag list (\<open>card.tags\<close>) and display content. The tag type is the
  enumeration \<open>Tag\<close>, whose declaration is absent: it is the type parameter \<open>'t\<close>, and
  its member \<open>Tag.UNTAGGED\<close> is passed to the functions below as \<open>untagged\<close>.
\<close>

record ('t, 'b) Card =
  tags :: "'t list"
  content :: 'b

text \<open>
  A JavaScript array of cards. An assignment past the end of an array leaves holes,
  which read as \<open>undefined\<close>: a slot is \<open>None\<close> for a hole and \<open>Some card\<close> otherwise.
\<close>

type_synonym ('t, 'b) deck = "('t, 'b) Card option list"

text \<open>\<open>interface LanguageData { cards?: Card[]; language: Language }\<close>\<close>

record ('t, 'b) LanguageData =
  cards :: "('t, 'b) deck option"
  language :: Language

text \<open>
  \<open>Record<Language, LanguageData>\<close> as it is at run time: the store starts from
  \<open>JSON.parse(... || '{}')\<close>, so an entry may be missing.
\<close>

type_synonym ('t, 'b) language_record = "Language \<rightharpoonup> ('t, 'b) LanguageData"

datatype fetch_error = NetworkError | ParseError

text \<open>
  The exception of \<open>localStorage.setItem\<close>, thrown when the quota of the storage is
  exceeded.
\<close>

datatype store_error = QuotaExceeded

text \<open>
  What \<open>console.error\<close> receives: from line 89, from line 145 (\<open>Failed to preload
  languages\<close>), from line 185 (\<open>Failed to load a single card\<close>) and from line 224.
\<close>

datatype log_entry =
    FetchFailed Language fetch_error
  | PreloadFailed store_error
  | SingleCardFailed store_error
  | UnsupportedLanguage string

text \<open>
  The surroundings of one load operation: what \<open>fetch(getCardUrl(language))\<close> followed by
  \<open>response.json()\<close> gives for each language (\<open>Inl\<close> when either throws, \<open>Inr\<close> the
  \<open>cards\<close> of the document otherwise), the value that \<open>Math.random()\<close> returns, the
  constant \<open>isBrowser\<close>, and whether \<open>localStorage.setItem\<close> throws when it is called.
\<close>

record ('t, 'b, 's) world =
  fetchCards :: "Language \<Rightarrow> fetch_error + ('t, 'b) Card list"
  random :: 's
  isBrowser :: bool
  setItem_throws :: bool

text \<open>
  The writable store \<open>languageData\<close>, its mirror under the \<open>localStorage\<close> key
  \<open>languageData\<close> (\<open>None\<close> while nothing has been written), and the console.
\<close>

record ('t, 'b) app_state =
  languageData :: "('t, 'b) language_record"
  localStorage :: "('t, 'b) language_record option"
  console :: "log_entry list"

section \<open>The filter\<close>

text \<open>Lines 74 to 78: the first \<open>cards.filter\<close>.\<close>

definition includedCards ::
  "'t \<Rightarrow> 't list \<Rightarrow> ('t, 'b) Card list \<Rightarrow> ('t, 'b) Card list" where
  "includedCards untagged includedTags cs =
     filter (\<lambda>card. list_ex (\<lambda>tag. tag \<in> set includedTags) (tags card)
                    \<or> (untagged \<in> set includedTags \<and> length (tags card) = 0)) cs"

text \<open>Lines 81 to 85: the second filter, applied to the result of the first.\<close>

definition filteredCards ::
  "'t \<Rightarrow> 't list \<Rightarrow> 't list \<Rightarrow> ('t, 'b) Card list \<Rightarrow> ('t, 'b) Card list" where
  "filteredCards untagged includedTags excludedTags cs =
     filter (\<lambda>card. \<not> list_ex (\<lambda>tag. tag \<in> set excludedTags) (tags card)
                    \<and> \<not> (untagged \<in> set excludedTags \<and> length (tags card) = 0))
       (includedCards untagged includedTags cs)"

text \<open>
  The rule as the specification words it: a card passes if it has a tag of the inclusion
  set, or the inclusion set holds the sentinel and the card has no tags; and it fails if
  it has a tag of the exclusion set, or the exclusion set holds the sentinel and the card
  has no tags.
\<close>

definition spec_keeps :: "'t \<Rightarrow> 't list \<Rightarrow> 't list \<Rightarrow> ('t, 'b) Card \<Rightarrow> bool" where
  "spec_keeps untagged includedTags excludedTags c =
     (((set (tags c) \<inter> set includedTags \<noteq> {})
        \<or> (untagged \<in> set includedTags \<and> tags c = []))
      \<and> \<not> ((set (tags c) \<inter> set excludedTags \<noteq> {})
        \<or> (untagged \<in> set excludedTags \<and> tags c = [])))"

section \<open>The shuffler\<close>

text \<open>
  Modelled from the spec: \<open>seededShuffle\<close> (imported from \<open>$lib/utils/seed\<close>) is missing
  from the sources. The specification describes it as a seeded deterministic
  permutation: given a list and a numeric seed it produces a reordering, and the same
  seed and the same input length always yield the same permutation. Accordingly the
  order of indices that a seed gives for a length is the parameter \<open>order\<close>, and the
  shuffle reads the list in that order. The seed is of any type \<open>'s\<close>.
\<close>

definition seededShuffle :: "('s \<Rightarrow> nat \<Rightarrow> nat list) \<Rightarrow> 'a list \<Rightarrow> 's \<Rightarrow> 'a list" where
  "seededShuffle order xs seed = map (\<lambda>i. xs ! i) (order seed (length xs))"

text \<open>The index list \<open>p\<close> is a permutation of the positions \<open>0, ..., n - 1\<close>.\<close>

definition is_permutation :: "nat list \<Rightarrow> nat \<Rightarrow> bool" where
  "is_permutation p n = (mset p = mset [0..<n])"

section \<open>Fetching and creating cards\<close>

text \<open>
  Lines 69 to 87, the body of the \<open>try\<close> in \<open>fetchAndFilterCards\<close>: a failure of the
  fetch or of the parse leaves it as an exception (\<open>Inl\<close>).
\<close>

definition fetchAndFilterCards_try ::
  "('s \<Rightarrow> nat \<Rightarrow> nat list) \<Rightarrow> 't \<Rightarrow> ('t, 'b, 's) world \<Rightarrow> Language \<Rightarrow> 't list \<Rightarrow> 't list \<Rightarrow> 's
     \<Rightarrow> fetch_error + ('t, 'b) Card list" where
  "fetchAndFilterCards_try order untagged w lang includedTags excludedTags seed =
     (case fetchCards w lang of
        Inl err \<Rightarrow> Inl err
      | Inr cs \<Rightarrow> Inr (seededShuffle order (filteredCards untagged includedTags excludedTags cs) seed))"

text \<open>
  \<open>fetchAndFilterCards\<close>: the \<open>catch\<close> of lines 88 to 91 turns every exception of the
  body into a console entry and the result \<open>[]\<close>. The first component is what the call
  writes to the console.
\<close>

definition fetchAndFilterCards ::
  "('s \<Rightarrow> nat \<Rightarrow> nat list) \<Rightarrow> 't \<Rightarrow> ('t, 'b, 's) world \<Rightarrow> Language \<Rightarrow> 't list \<Rightarrow> 't list \<Rightarrow> 's
     \<Rightarrow> log_entry list \<times> ('t, 'b) Card list" where
  "fetchAndFilterCards order untagged w lang includedTags excludedTags seed =
     (case fetchAndFilterCards_try order untagged w lang includedTags excludedTags seed of
        Inl err \<Rightarrow> ([FetchFailed lang err], [])
      | Inr shuffled \<Rightarrow> ([], shuffled))"

text \<open>
  \<open>createCards\<close>, lines 101 to 122. \<open>slice(0, cardAmount)\<close> is \<open>take cardAmount\<close>. Both
  calls of \<open>fetchAndFilterCards\<close> return normally, so \<open>Promise.all\<close> resolves and the
  \<open>catch\<close> of line 118, which would give \<open>null\<close> (\<open>None\<close>), is not entered; the result
  type keeps the \<open>null\<close> that the callers test for.
\<close>

definition createCards ::
  "('s \<Rightarrow> nat \<Rightarrow> nat list) \<Rightarrow> 't \<Rightarrow> ('t, 'b, 's) world \<Rightarrow> nat \<Rightarrow> 't list \<Rightarrow> 't list
     \<Rightarrow> log_entry list \<times> ('t, 'b) language_record option" where
  "createCards order untagged w cardAmount includedTags excludedTags =
     (let seed = random w;
          fi = fetchAndFilterCards order untagged w FI includedTags excludedTags seed;
          en = fetchAndFilterCards order untagged w EN includedTags excludedTags seed
      in (fst fi @ fst en,
          Some [FI \<mapsto> \<lparr>cards = Some (map Some (take cardAmount (snd fi))), language = FI\<rparr>,
                EN \<mapsto> \<lparr>cards = Some (map Some (take cardAmount (snd en))), language = EN\<rparr>]))"

section \<open>The store\<close>

text \<open>
  \<open>languageData.set(value)\<close>: the store takes the value, and then runs its
  subscribers. In the browser the subscriber of lines 31 to 35 copies the value to
  \<open>localStorage\<close>; when \<open>setItem\<close> throws there, the exception leaves \<open>set\<close> with the
  store already holding the new value and the mirror as it was. The first component is
  the exception, if any.
\<close>

definition languageData_set ::
  "('t, 'b, 's) world \<Rightarrow> ('t, 'b) language_record \<Rightarrow> ('t, 'b) app_state
     \<Rightarrow> store_error option \<times> ('t, 'b) app_state" where
  "languageData_set w v st =
     (if isBrowser w
      then (if setItem_throws w
            then (Some QuotaExceeded, st\<lparr>languageData := v\<rparr>)
            else (None, st\<lparr>languageData := v, localStorage := Some v\<rparr>))
      else (None, st\<lparr>languageData := v\<rparr>))"

definition MAX_SAFE_INTEGER :: nat where
  "MAX_SAFE_INTEGER = 2 ^ 53 - 1"

text \<open>\<open>Object.values(cardsData)\<close>: the entries that exist, in the order of the keys.\<close>

definition Object_values :: "('t, 'b) language_record \<Rightarrow> ('t, 'b) LanguageData list" where
  "Object_values r = List.map_filter r Language_values"

text \<open>
  Lines 139 to 143: \<open>lang.cards?.length ?? 0\<close> for each entry, reduced with \<open>Math.min\<close>
  from \<open>Number.MAX_SAFE_INTEGER\<close>; the final \<open>|| 0\<close> maps \<open>0\<close> to \<open>0\<close>.
\<close>

definition minimum_length :: "('t, 'b) language_record \<Rightarrow> nat" where
  "minimum_length cardsData =
     (let r = foldl (\<lambda>mn len. min mn len)
                MAX_SAFE_INTEGER
                (map (\<lambda>lang. case cards lang of None \<Rightarrow> 0 | Some cs \<Rightarrow> length cs)
                   (Object_values cardsData))
      in if r = 0 then 0 else r)"

text \<open>
  Lines 133 to 147 of \<open>loadCards\<close>: what the function does with the value that
  \<open>createCards\<close> resolved to. The result is the returned number and the new state. An
  exception of \<open>languageData.set\<close> in line 136 is caught in line 144: it is logged and
  the function returns \<open>0\<close>.
\<close>

definition loadCards_with ::
  "('t, 'b, 's) world \<Rightarrow> ('t, 'b) language_record option \<Rightarrow> ('t, 'b) app_state
     \<Rightarrow> nat \<times> ('t, 'b) app_state" where
  "loadCards_with w cardsData st =
     (case cardsData of
        None \<Rightarrow> (0, st)
      | Some d \<Rightarrow>
          (case languageData_set w d st of
             (Some err, st') \<Rightarrow> (0, st'\<lparr>console := console st' @ [PreloadFailed err]\<rparr>)
           | (None, st') \<Rightarrow> (minimum_length d, st')))"

text \<open>\<open>loadCards\<close>, lines 130 to 148.\<close>

definition loadCards ::
  "('s \<Rightarrow> nat \<Rightarrow> nat list) \<Rightarrow> 't \<Rightarrow> ('t, 'b, 's) world \<Rightarrow> 't list \<Rightarrow> 't list \<Rightarrow> ('t, 'b) app_state
     \<Rightarrow> nat \<times> ('t, 'b) app_state" where
  "loadCards order untagged w includedTags excludedTags st =
     (let created = createCards order untagged w MAX_SAFE_INTEGER includedTags excludedTags
      in loadCards_with w (snd created) (st\<lparr>console := console st @ fst created\<rparr>))"

text \<open>
  \<open>array[cardIndex] = card\<close> on a JavaScript array, for an integer \<open>cardIndex\<close>: inside
  the array the slot is overwritten; from the end of the array up to the largest array
  index \<open>2^32 - 2\<close> the array grows, with holes before the new slot; any other number
  names a plain property of the object and no slot changes.
\<close>

definition array_assign :: "'a option list \<Rightarrow> int \<Rightarrow> 'a \<Rightarrow> 'a option list" where
  "array_assign xs i v =
     (if i < 0 \<or> 2 ^ 32 - 1 \<le> i then xs
      else if nat i < length xs then xs[nat i := Some v]
      else xs @ replicate (nat i - length xs) None @ [Some v])"

text \<open>\<open>r[lang]?.cards\<close>: the deck of a language, \<open>None\<close> for \<open>undefined\<close>.\<close>

definition cards_of :: "('t, 'b) language_record \<Rightarrow> Language \<Rightarrow> ('t, 'b) deck option" where
  "cards_of r lang = (case r lang of None \<Rightarrow> None | Some d \<Rightarrow> cards d)"

text \<open>\<open>newCardData[lang]?.cards?.[0]\<close>, line 174.\<close>

definition first_card :: "('t, 'b) language_record \<Rightarrow> Language \<Rightarrow> ('t, 'b) Card option" where
  "first_card newCardData lang =
     (case cards_of newCardData lang of
        None \<Rightarrow> None
      | Some cs \<Rightarrow> (case cs of [] \<Rightarrow> None | c # _ \<Rightarrow> c))"

text \<open>
  One round of the loop of lines 172 to 181. A card object is truthy, so the test
  \<open>langData?.cards && newLangCard\<close> asks that both exist. The spread
  \<open>{ ...langData, language: lang }\<close> of a missing entry has no \<open>cards\<close>.
\<close>

definition replace_card ::
  "('t, 'b) language_record \<Rightarrow> int \<Rightarrow> Language \<Rightarrow> ('t, 'b) language_record
     \<Rightarrow> ('t, 'b) language_record" where
  "replace_card newCardData cardIndex lang updatedData =
     (let langData = updatedData lang;
          newLangCard = first_card newCardData lang;
          cards' = (case langData of
                      None \<Rightarrow> None
                    | Some d \<Rightarrow> (case cards d of
                                  None \<Rightarrow> None
                                | Some cs \<Rightarrow> (case newLangCard of
                                               None \<Rightarrow> Some cs
                                             | Some c \<Rightarrow> Some (array_assign cs cardIndex c))))
      in updatedData(lang \<mapsto> \<lparr>cards = cards', language = lang\<rparr>))"

text \<open>
  \<open>loadSingleCard\<close>, lines 156 to 187. The store always holds an object, which is
  truthy, so the return of line 163 is not taken. The index is an integer. An exception
  of \<open>languageData.set\<close> in line 183 is caught in line 184 and logged.
\<close>

definition loadSingleCard ::
  "('s \<Rightarrow> nat \<Rightarrow> nat list) \<Rightarrow> 't \<Rightarrow> ('t, 'b, 's) world \<Rightarrow> int \<Rightarrow> 't list \<Rightarrow> 't list
     \<Rightarrow> ('t, 'b) app_state \<Rightarrow> ('t, 'b) app_state" where
  "loadSingleCard order untagged w cardIndex includedTags excludedTags st =
     (let currentData = languageData st;
          created = createCards order untagged w 1 includedTags excludedTags;
          st' = st\<lparr>console := console st @ fst created\<rparr>
      in case snd created of
           None \<Rightarrow> st'
         | Some newCardData \<Rightarrow>
             (case languageData_set w
                     (fold (replace_card newCardData cardIndex) Language_values currentData) st' of
                (Some err, st'') \<Rightarrow> st''\<lparr>console := console st'' @ [SingleCardFailed err]\<rparr>
              | (None, st'') \<Rightarrow> st''))"

text \<open>
  \<open>getStoredCards\<close>, lines 194 to 196: \<open>get(languageData)[lang]?.cards || null\<close>. Every
  array is truthy, the empty one too, so \<open>|| null\<close> only replaces \<open>undefined\<close>.
\<close>

definition getStoredCards :: "('t, 'b) app_state \<Rightarrow> Language \<Rightarrow> ('t, 'b) deck option" where
  "getStoredCards st lang = cards_of (languageData st) lang"

section \<open>The active language\<close>

text \<open>
  Modelled from the spec: the declaration of the enumeration \<open>Language\<close>
  (\<open>$lib/languages/language\<close>) is missing. The specification has the two languages
  Finnish and English, with English the default locale; the string values are the
  locale codes that lines 42 and 43 register and that line 211 compares the
  navigator's locale with, \<open>fi\<close> and \<open>en\<close>.
\<close>

fun Language_code :: "Language \<Rightarrow> string" where
  "Language_code FI = ''fi''"
| "Language_code EN = ''en''"

text \<open>
  The session-scoped key \<open>selectedLanguage\<close>, the locale of the translation layer, and
  the console.
\<close>

record ui_state =
  selectedLanguage :: "string option"
  i18n_locale :: "string option"
  ui_console :: "log_entry list"

text \<open>
  \<open>setLanguage\<close>, lines 218 to 226. At run time the argument is a string, whatever the
  type annotation says (\<open>getStoredLanguage\<close> hands back any stored string as a
  \<open>Language\<close>), and \<open>lang.toString()\<close> is that string, truthy unless empty.
\<close>

definition setLanguage :: "string \<Rightarrow> ui_state \<Rightarrow> ui_state" where
  "setLanguage lang st =
     (let localeCode = lang
      in if localeCode \<noteq> []
         then st\<lparr>selectedLanguage := Some lang, i18n_locale := Some localeCode\<rparr>
         else st\<lparr>ui_console := ui_console st @ [UnsupportedLanguage lang]\<rparr>)"

section \<open>Example inputs\<close>

text \<open>
  Concrete inputs on which the functions are evaluated below: tags are numbers with
  \<open>0\<close> for \<open>Tag.UNTAGGED\<close>, contents are strings, seeds are numbers, and the order of
  a seed rotates the positions by it.
\<close>

definition example_order :: "nat \<Rightarrow> nat \<Rightarrow> nat list" where
  "example_order seed n = rotate seed [0..<n]"

definition example_fi :: "(nat, string) Card list" where
  "example_fi = [\<lparr>tags = [1], content = ''yksi''\<rparr>, \<lparr>tags = [2], content = ''kaksi''\<rparr>,
                 \<lparr>tags = [1], content = ''kolme''\<rparr>]"

definition example_en :: "(nat, string) Card list" where
  "example_en = [\<lparr>tags = [1], content = ''one''\<rparr>, \<lparr>tags = [2], content = ''two''\<rparr>,
                 \<lparr>tags = [1], content = ''three''\<rparr>]"

definition example_mixed :: "(nat, string) Card list" where
  "example_mixed = [\<lparr>tags = [], content = ''a''\<rparr>, \<lparr>tags = [1, 2], content = ''b''\<rparr>,
                    \<lparr>tags = [1], content = ''c''\<rparr>, \<lparr>tags = [3], content = ''d''\<rparr>]"

text \<open>Both fetches succeed.\<close>

definition example_world :: "(nat, string, nat) world" where
  "example_world =
     \<lparr>fetchCards = (\<lambda>l. case l of FI \<Rightarrow> Inr example_fi | EN \<Rightarrow> Inr example_en),
      random = 1, isBrowser = True, setItem_throws = False\<rparr>"

text \<open>The fetch for Finnish fails, the one for English succeeds.\<close>

definition offline_fi_world :: "(nat, string, nat) world" where
  "offline_fi_world =
     \<lparr>fetchCards = (\<lambda>l. case l of FI \<Rightarrow> Inl NetworkError | EN \<Rightarrow> Inr example_en),
      random = 1, isBrowser = True, setItem_throws = False\<rparr>"

text \<open>Both fetches succeed, and the storage is full.\<close>

definition full_storage_world :: "(nat, string, nat) world" where
  "full_storage_world =
     \<lparr>fetchCards = (\<lambda>l. case l of FI \<Rightarrow> Inr example_fi | EN \<Rightarrow> Inr example_en),
      random = 1, isBrowser = True, setItem_throws = True\<rparr>"

definition example_state :: "(nat, string) app_state" where
  "example_state =
     \<lparr>languageData =
        [FI \<mapsto> \<lparr>cards = Some [Some \<lparr>tags = [3], content = ''vanha''\<rparr>], language = FI\<rparr>,
         EN \<mapsto> \<lparr>cards = Some [Some \<lparr>tags = [3], content = ''old''\<rparr>], language = EN\<rparr>],
      localStorage = None, console = []\<rparr>"

definition two_card_state :: "(nat, string) app_state" where
  "two_card_state =
     \<lparr>languageData =
        [FI \<mapsto> \<lparr>cards = Some [Some \<lparr>tags = [3], content = ''vanha''\<rparr>,
                                 Some \<lparr>tags = [3], content = ''uusi''\<rparr>], language = FI\<rparr>,
         EN \<mapsto> \<lparr>cards = Some [], language = EN\<rparr>],
      localStorage = None, console = []\<rparr>"

text \<open>An English deck that is empty, and no entry for Finnish.\<close>

definition fresh_state :: "(nat, string) app_state" where
  "fresh_state = \<lparr>languageData = [EN \<mapsto> \<lparr>cards = Some [], language = EN\<rparr>],
                   localStorage = None, console = []\<rparr>"

section \<open>Auxiliary facts\<close>

subsection \<open>Filter and shuffle\<close>

lemma list_ex_member: "list_ex (\<lambda>tag. tag \<in> set ts) xs \<longleftrightarrow> set xs \<inter> set ts \<noteq> {}"
  by (auto simp: list_ex_iff)

lemma filteredCards_filter:
  "filteredCards untagged inc exc cs = filter (spec_keeps untagged inc exc) cs"
  unfolding filteredCards_def includedCards_def spec_keeps_def
  by (simp add: list_ex_member conj_commute)

lemma is_permutation_length: "is_permutation p n \<Longrightarrow> length p = n"
  unfolding is_permutation_def by (metis size_mset length_upt diff_zero)

subsection \<open>Fetching and creating\<close>

lemma fetchAndFilterCards_ok:
  "fetchCards w lang = Inr cs \<Longrightarrow>
     snd (fetchAndFilterCards order untagged w lang inc exc seed)
       = seededShuffle order (filteredCards untagged inc exc cs) seed"
  by (simp add: fetchAndFilterCards_def fetchAndFilterCards_try_def)

lemma fetchAndFilterCards_failed:
  "fetchCards w lang = Inl e \<Longrightarrow> snd (fetchAndFilterCards order untagged w lang inc exc seed) = []"
  by (simp add: fetchAndFilterCards_def fetchAndFilterCards_try_def)

lemma createCards_value:
  "snd (createCards order untagged w cardAmount inc exc) =
     Some [FI \<mapsto> \<lparr>cards = Some (map Some (take cardAmount
                      (snd (fetchAndFilterCards order untagged w FI inc exc (random w))))),
                  language = FI\<rparr>,
           EN \<mapsto> \<lparr>cards = Some (map Some (take cardAmount
                      (snd (fetchAndFilterCards order untagged w EN inc exc (random w))))),
                  language = EN\<rparr>]"
  by (simp add: createCards_def Let_def)

lemma createCards_cards_of:
  "snd (createCards order untagged w cardAmount inc exc) = Some d \<Longrightarrow>
     cards_of d lang = Some (map Some (take cardAmount
                      (snd (fetchAndFilterCards order untagged w lang inc exc (random w)))))"
  by (cases lang) (auto simp: createCards_value cards_of_def)

text \<open>In this model \<open>createCards\<close> always yields a record: its \<open>catch\<close> is not reached.\<close>

lemma createCards_not_null: "snd (createCards order untagged w cardAmount inc exc) \<noteq> None"
  by (simp add: createCards_value)

subsection \<open>Loading\<close>

lemma minimum_length_two:
  "minimum_length [FI \<mapsto> \<lparr>cards = Some a, language = FI\<rparr>, EN \<mapsto> \<lparr>cards = Some b, language = EN\<rparr>]
     = min (min MAX_SAFE_INTEGER (length a)) (length b)"
  by (simp add: minimum_length_def Object_values_def Language_values_def)

lemma languageData_set_store: "languageData (snd (languageData_set w v st)) = v"
  by (simp add: languageData_set_def)

lemma languageData_set_error:
  "fst (languageData_set w v st) = (if isBrowser w \<and> setItem_throws w then Some QuotaExceeded else None)"
  by (simp add: languageData_set_def)

lemma loadCards_with_store:
  "languageData (snd (loadCards_with w (Some d) st)) = d"
  using languageData_set_store [of w d st]
  by (cases "languageData_set w d st") (auto simp: loadCards_with_def split: option.splits)

lemma loadCards_with_result:
  "fst (loadCards_with w (Some d) st)
     = (if isBrowser w \<and> setItem_throws w then 0 else minimum_length d)"
  using languageData_set_error [of w d st]
  by (cases "languageData_set w d st") (auto simp: loadCards_with_def split: option.splits)

lemma loadCards_stored:
  "getStoredCards (snd (loadCards order untagged w inc exc st)) lang
     = Some (map Some (take MAX_SAFE_INTEGER
               (snd (fetchAndFilterCards order untagged w lang inc exc (random w)))))"
  unfolding loadCards_def Let_def createCards_value getStoredCards_def loadCards_with_store
  by (cases lang) (simp_all add: cards_of_def)

lemma loadCards_result:
  "fst (loadCards order untagged w inc exc st)
     = (if isBrowser w \<and> setItem_throws w then 0
        else min (length (take MAX_SAFE_INTEGER
                    (snd (fetchAndFilterCards order untagged w FI inc exc (random w)))))
                 (length (take MAX_SAFE_INTEGER
                    (snd (fetchAndFilterCards order untagged w EN inc exc (random w))))))"
  unfolding loadCards_def Let_def createCards_value loadCards_with_result minimum_length_two
  by (simp add: min.assoc min.commute)

subsection \<open>Refreshing one card\<close>

lemma array_assign_frame:
  "j < length xs \<Longrightarrow> int j \<noteq> i \<Longrightarrow> array_assign xs i v ! j = xs ! j"
  by (auto simp: array_assign_def nth_append)

lemma array_assign_inside:
  "0 \<le> i \<Longrightarrow> i < int (length xs) \<Longrightarrow> length xs < 2 ^ 32 \<Longrightarrow>
     array_assign xs i v = xs[nat i := Some v]"
  by (auto simp: array_assign_def)

lemma fold_replace_card:
  "cards_of (fold (replace_card new idx) Language_values cur) lang =
     (case cards_of cur lang of
        None \<Rightarrow> None
      | Some cs \<Rightarrow> (case first_card new lang of
                     None \<Rightarrow> Some cs
                   | Some c \<Rightarrow> Some (array_assign cs idx c)))"
  by (cases lang)
     (simp_all add: Language_values_def replace_card_def cards_of_def Let_def split: option.splits)

lemma first_card_created:
  "snd (createCards order untagged w 1 inc exc) = Some new \<Longrightarrow>
     first_card new lang =
       (case snd (fetchAndFilterCards order untagged w lang inc exc (random w)) of
          [] \<Rightarrow> None | c # _ \<Rightarrow> Some c)"
  by (simp add: first_card_def createCards_cards_of split: list.splits)

lemma loadSingleCard_deck:
  "getStoredCards (loadSingleCard order untagged w idx inc exc st) lang =
     (case getStoredCards st lang of
        None \<Rightarrow> None
      | Some cs \<Rightarrow>
          (case snd (fetchAndFilterCards order untagged w lang inc exc (random w)) of
             [] \<Rightarrow> Some cs
           | c # _ \<Rightarrow> Some (array_assign cs idx c)))"
proof -
  obtain new where new: "snd (createCards order untagged w 1 inc exc) = Some new"
    using createCards_not_null [of order untagged w 1 inc exc] by auto
  have "getStoredCards (loadSingleCard order untagged w idx inc exc st) lang =
          cards_of (fold (replace_card new idx) Language_values (languageData st)) lang"
    unfolding loadSingleCard_def Let_def new option.case getStoredCards_def
    using languageData_set_store
            [of w "fold (replace_card new idx) Language_values (languageData st)"
                "st\<lparr>console := console st @ fst (createCards order untagged w 1 inc exc)\<rparr>"]
    by (cases "languageData_set w (fold (replace_card new idx) Language_values (languageData st))
                 (st\<lparr>console := console st @ fst (createCards order untagged w 1 inc exc)\<rparr>)")
       (auto split: option.splits)
  also have "\<dots> = (case cards_of (languageData st) lang of
        None \<Rightarrow> None
      | Some cs \<Rightarrow> (case first_card new lang of
                     None \<Rightarrow> Some cs
                   | Some c \<Rightarrow> Some (array_assign cs idx c)))"
    by (rule fold_replace_card)
  finally show ?thesis
    unfolding first_card_created [OF new] getStoredCards_def
    by (simp split: option.splits list.splits)
qed

subsection \<open>The language setter\<close>

lemma setLanguage_nonempty:
  "lang \<noteq> [] \<Longrightarrow>
     setLanguage lang st = st\<lparr>selectedLanguage := Some lang, i18n_locale := Some lang\<rparr>"
  by (simp add: setLanguage_def Let_def)

lemma setLanguage_empty:
  "setLanguage [] st = st\<lparr>ui_console := ui_console st @ [UnsupportedLanguage []]\<rparr>"
  by (simp add: setLanguage_def Let_def)

subsection \<open>The example inputs evaluated\<close>

lemma example_order_1_2:
  "example_order (Suc 0) (Suc (Suc 0)) = [Suc 0, 0]"
  "example_order (Suc 0) 2 = [Suc 0, 0]"
  "example_order 1 2 = [Suc 0, 0]"
  by (simp_all add: example_order_def upt_rec)

lemma example_order_1_1:
  "example_order (Suc 0) (Suc 0) = [0]"
  "example_order 1 (Suc 0) = [0]"
  "example_order 1 1 = [0]"
  by (simp_all add: example_order_def)

lemma example_is_permutation: "is_permutation [Suc 0, 0] 2"
  unfolding is_permutation_def by (simp add: upt_rec del: mset_upt)

lemma example_shuffled_fi:
  "snd (fetchAndFilterCards example_order 0 example_world FI [1] [] (random example_world))
     = [\<lparr>tags = [1], content = ''kolme''\<rparr>, \<lparr>tags = [1], content = ''yksi''\<rparr>]"
  by (simp add: fetchAndFilterCards_def fetchAndFilterCards_try_def example_world_def
      example_fi_def filteredCards_def includedCards_def seededShuffle_def example_order_1_2)

section \<open>The claims\<close>

subsection \<open>C1: both decks follow the same permutation\<close>

text \<open>
  Claim C1. For any seed, any inclusion and exclusion tag sets and any two fetched card
  lists whose filtered results have the same length \<open>n\<close>, the two decks that
  \<open>createCards\<close> builds (filter, shuffle with the shared seed, cut to \<open>cardAmount\<close>) are
  ordered by one permutation \<open>p\<close> of the positions: both have the same length, and
  position \<open>i\<close> of either deck holds the card that \<open>p\<close> takes from position \<open>p ! i\<close> of
  that language's filtered list. The shuffle is the modelled one, its order for the
  seed and \<open>n\<close> being a permutation.
\<close>

theorem createCards_same_permutation:
  assumes fi: "fetchCards w FI = Inr fi" and en: "fetchCards w EN = Inr en"
    and len_fi: "length (filteredCards untagged inc exc fi) = n"
    and len_en: "length (filteredCards untagged inc exc en) = n"
    and perm: "is_permutation (order (random w) n) n"
  shows "\<exists>p d fiDeck enDeck.
           is_permutation p n
         \<and> snd (createCards order untagged w cardAmount inc exc) = Some d
         \<and> cards_of d FI = Some fiDeck \<and> cards_of d EN = Some enDeck
         \<and> length fiDeck = min cardAmount n \<and> length enDeck = min cardAmount n
         \<and> (\<forall>i < min cardAmount n.
               fiDeck ! i = Some (filteredCards untagged inc exc fi ! (p ! i))
             \<and> enDeck ! i = Some (filteredCards untagged inc exc en ! (p ! i)))"
proof -
  let ?p = "order (random w) n"
  let ?d = "[FI \<mapsto> \<lparr>cards = Some (map Some (take cardAmount
                      (snd (fetchAndFilterCards order untagged w FI inc exc (random w))))),
                  language = FI\<rparr>,
           EN \<mapsto> \<lparr>cards = Some (map Some (take cardAmount
                      (snd (fetchAndFilterCards order untagged w EN inc exc (random w))))),
                  language = EN\<rparr>]"
  let ?fi = "map Some (take cardAmount (map ((!) (filteredCards untagged inc exc fi)) ?p))"
  let ?en = "map Some (take cardAmount (map ((!) (filteredCards untagged inc exc en)) ?p))"
  have lp: "length ?p = n" using perm by (rule is_permutation_length)
  have d: "snd (createCards order untagged w cardAmount inc exc) = Some ?d"
    by (rule createCards_value)
  have cfi: "cards_of ?d FI = Some ?fi"
    using createCards_cards_of [OF d, of FI] fi len_fi
    by (simp add: fetchAndFilterCards_ok seededShuffle_def)
  have cen: "cards_of ?d EN = Some ?en"
    using createCards_cards_of [OF d, of EN] en len_en
    by (simp add: fetchAndFilterCards_ok seededShuffle_def)
  have lens: "length ?fi = min cardAmount n" "length ?en = min cardAmount n"
    using lp by (simp_all add: min.commute)
  have pos: "\<forall>i < min cardAmount n.
               ?fi ! i = Some (filteredCards untagged inc exc fi ! (?p ! i))
             \<and> ?en ! i = Some (filteredCards untagged inc exc en ! (?p ! i))"
    using lp by simp
  show ?thesis
    apply (rule exI [of _ ?p], rule exI [of _ ?d], rule exI [of _ ?fi], rule exI [of _ ?en])
    apply (intro conjI)
    apply (rule perm)
    apply (rule d)
    apply (rule cfi)
    apply (rule cen)
    apply (rule lens(1))
    apply (rule lens(2))
    apply (rule pos)
    done
qed

theorem createCards_same_permutation_witness:
  "\<exists>p d fiDeck enDeck.
           is_permutation p 2
         \<and> snd (createCards example_order 0 example_world 5 [1] []) = Some d
         \<and> cards_of d FI = Some fiDeck \<and> cards_of d EN = Some enDeck
         \<and> length fiDeck = min 5 2 \<and> length enDeck = min 5 2
         \<and> (\<forall>i < min 5 2.
               fiDeck ! i = Some (filteredCards 0 [1] [] example_fi ! (p ! i))
             \<and> enDeck ! i = Some (filteredCards 0 [1] [] example_en ! (p ! i)))"
  by (rule createCards_same_permutation
        [of example_world example_fi example_en 0 "[1]" "[]" 2 example_order 5])
     (simp_all add: example_world_def example_fi_def example_en_def filteredCards_def
        includedCards_def example_is_permutation example_order_1_2)

subsection \<open>C2: the rule of the filter\<close>

text \<open>
  Claim C2. For every card, inclusion tag set and exclusion tag set, the filter keeps
  the card if and only if (the card has a tag of the inclusion set, or the inclusion set
  holds the untagged sentinel and the card has no tags) and not (the card has a tag of
  the exclusion set, or the exclusion set holds the sentinel and the card has no tags).
  In particular a card without tags passes the inclusion filter when the inclusion set
  holds the sentinel, and is dropped when the exclusion set holds it.
\<close>

theorem filter_rule:
  "filteredCards untagged inc exc cs = filter (spec_keeps untagged inc exc) cs
   \<and> (c \<in> set (filteredCards untagged inc exc cs) \<longleftrightarrow> c \<in> set cs \<and> spec_keeps untagged inc exc c)
   \<and> (c \<in> set cs \<and> tags c = [] \<and> untagged \<in> set inc
        \<longrightarrow> c \<in> set (includedCards untagged inc cs))
   \<and> (tags c = [] \<and> untagged \<in> set exc
        \<longrightarrow> c \<notin> set (filteredCards untagged inc exc cs))"
  by (simp add: filteredCards_filter) (simp add: includedCards_def spec_keeps_def)

theorem filter_rule_witness:
  "filteredCards 0 [0, 1] [2] example_mixed
     = [\<lparr>tags = [], content = ''a''\<rparr>, \<lparr>tags = [1], content = ''c''\<rparr>]
   \<and> \<lparr>tags = [], content = ''a''\<rparr> \<in> set (includedCards 0 [0, 1] example_mixed)
   \<and> \<lparr>tags = [], content = ''a''\<rparr> \<notin> set (filteredCards 0 [0, 1] [0] example_mixed)"
  using filter_rule [of 0 "[0, 1]" "[2]" example_mixed "\<lparr>tags = [], content = ''a''\<rparr>"]
    filter_rule [of 0 "[0, 1]" "[0]" example_mixed "\<lparr>tags = [], content = ''a''\<rparr>"]
  by (simp add: spec_keeps_def example_mixed_def)

subsection \<open>C4: a full load returns the shortest deck's length\<close>

text \<open>
  The claim as stated, that \<open>loadCards\<close> returns the minimum of the lengths of the
  resulting decks, fails when the write to \<open>localStorage\<close> throws: with one Finnish and
  one English card passing the filter and the storage full, the store holds two decks of
  one card each, and \<open>loadCards\<close> returns \<open>0\<close>.
\<close>

theorem loadCards_counterexample:
  "fst (loadCards example_order 0 full_storage_world [2] [] example_state) = 0
   \<and> getStoredCards (snd (loadCards example_order 0 full_storage_world [2] [] example_state)) FI
       = Some [Some \<lparr>tags = [2], content = ''kaksi''\<rparr>]
   \<and> getStoredCards (snd (loadCards example_order 0 full_storage_world [2] [] example_state)) EN
       = Some [Some \<lparr>tags = [2], content = ''two''\<rparr>]"
  by (simp add: loadCards_def loadCards_with_def languageData_set_def createCards_def
      getStoredCards_def cards_of_def full_storage_world_def fetchAndFilterCards_def
      fetchAndFilterCards_try_def example_fi_def example_en_def filteredCards_def
      includedCards_def seededShuffle_def example_order_1_1 MAX_SAFE_INTEGER_def Let_def)

text \<open>
  Claim C4, amended. \<open>loadCards\<close> stores a deck for each language. When the write of
  the store to \<open>localStorage\<close> does not throw, it returns the minimum of the lengths of
  these decks; when the write throws, it returns \<open>0\<close>. In particular, when the fetch
  for one language fails, that language's deck is empty and \<open>loadCards\<close> returns \<open>0\<close>,
  whatever number of cards the other language has.
\<close>

theorem loadCards_returns_minimum:
  "\<exists>fiDeck enDeck.
       getStoredCards (snd (loadCards order untagged w inc exc st)) FI = Some fiDeck
     \<and> getStoredCards (snd (loadCards order untagged w inc exc st)) EN = Some enDeck
     \<and> (\<not> (isBrowser w \<and> setItem_throws w)
          \<longrightarrow> fst (loadCards order untagged w inc exc st) = min (length fiDeck) (length enDeck))
     \<and> (isBrowser w \<and> setItem_throws w \<longrightarrow> fst (loadCards order untagged w inc exc st) = 0)
     \<and> (isl (fetchCards w FI) \<longrightarrow> fiDeck = [])
     \<and> (isl (fetchCards w EN) \<longrightarrow> enDeck = [])
     \<and> (isl (fetchCards w FI) \<or> isl (fetchCards w EN)
          \<longrightarrow> fst (loadCards order untagged w inc exc st) = 0)"
proof -
  let ?fi = "take MAX_SAFE_INTEGER (snd (fetchAndFilterCards order untagged w FI inc exc (random w)))"
  let ?en = "take MAX_SAFE_INTEGER (snd (fetchAndFilterCards order untagged w EN inc exc (random w)))"
  have fi: "getStoredCards (snd (loadCards order untagged w inc exc st)) FI = Some (map Some ?fi)"
    by (rule loadCards_stored)
  have en: "getStoredCards (snd (loadCards order untagged w inc exc st)) EN = Some (map Some ?en)"
    by (rule loadCards_stored)
  have r: "\<not> (isBrowser w \<and> setItem_throws w)
          \<longrightarrow> fst (loadCards order untagged w inc exc st)
                = min (length (map Some ?fi)) (length (map Some ?en))"
    by (simp add: loadCards_result)
  have t: "isBrowser w \<and> setItem_throws w \<longrightarrow> fst (loadCards order untagged w inc exc st) = 0"
    by (simp add: loadCards_result)
  have ffi: "isl (fetchCards w FI) \<longrightarrow> map Some ?fi = []"
    by (auto simp: isl_def fetchAndFilterCards_failed)
  have fen: "isl (fetchCards w EN) \<longrightarrow> map Some ?en = []"
    by (auto simp: isl_def fetchAndFilterCards_failed)
  have z: "isl (fetchCards w FI) \<or> isl (fetchCards w EN)
          \<longrightarrow> fst (loadCards order untagged w inc exc st) = 0"
    using ffi fen by (auto simp: loadCards_result)
  show ?thesis
    apply (rule exI [of _ "map Some ?fi"], rule exI [of _ "map Some ?en"])
    apply (intro conjI)
    apply (rule fi)
    apply (rule en)
    apply (rule r)
    apply (rule t)
    apply (rule ffi)
    apply (rule fen)
    apply (rule z)
    done
qed

theorem loadCards_returns_minimum_witness:
  "\<not> (isBrowser example_world \<and> setItem_throws example_world)
   \<and> fst (loadCards example_order 0 example_world [1] [] example_state) = 2
   \<and> isl (fetchCards offline_fi_world FI)
   \<and> fst (loadCards example_order 0 offline_fi_world [1] [] example_state) = 0
   \<and> getStoredCards (snd (loadCards example_order 0 offline_fi_world [1] [] example_state)) FI
       = Some []
   \<and> getStoredCards (snd (loadCards example_order 0 offline_fi_world [1] [] example_state)) EN
       = Some [Some \<lparr>tags = [1], content = ''three''\<rparr>, Some \<lparr>tags = [1], content = ''one''\<rparr>]
   \<and> isBrowser full_storage_world \<and> setItem_throws full_storage_world
   \<and> fst (loadCards example_order 0 full_storage_world [1] [] example_state) = 0"
  using loadCards_returns_minimum [of example_order 0 offline_fi_world "[1]" "[]" example_state]
    loadCards_returns_minimum [of example_order 0 example_world "[1]" "[]" example_state]
    loadCards_returns_minimum [of example_order 0 full_storage_world "[1]" "[]" example_state]
  by (simp add: offline_fi_world_def example_world_def full_storage_world_def loadCards_stored
      loadCards_result fetchAndFilterCards_def fetchAndFilterCards_try_def example_en_def
      example_fi_def filteredCards_def includedCards_def seededShuffle_def example_order_1_2
      MAX_SAFE_INTEGER_def)

subsection \<open>C5: a failed fetch gives the empty list\<close>

text \<open>
  Claim C5. For every language, when the fetch or the parse of the response fails, the
  body of \<open>fetchAndFilterCards\<close> ends with that error, and \<open>fetchAndFilterCards\<close> itself
  returns the empty list, having written the failure to the console: the error does not
  reach the caller.
\<close>

theorem fetch_failure_gives_empty:
  assumes "fetchCards w lang = Inl err"
  shows "fetchAndFilterCards_try order untagged w lang inc exc seed = Inl err
         \<and> fetchAndFilterCards order untagged w lang inc exc seed = ([FetchFailed lang err], [])"
  using assms by (simp add: fetchAndFilterCards_def fetchAndFilterCards_try_def)

theorem fetch_failure_gives_empty_witness:
  "fetchCards offline_fi_world FI = Inl NetworkError
   \<and> fetchAndFilterCards example_order 0 offline_fi_world FI [1] [] 1
       = ([FetchFailed FI NetworkError], [])"
  using fetch_failure_gives_empty [of offline_fi_world FI NetworkError example_order 0 "[1]" "[]" 1]
  by (simp add: offline_fi_world_def)

subsection \<open>C6: refreshing a single card\<close>

text \<open>
  The claim as stated, that the refresh replaces the element at the given index in each
  language's deck for every index and every state, fails: with one card in each deck,
  index \<open>2\<close>, the Finnish fetch failing and a single English card passing the filter,
  the Finnish deck is left as it is, and the English deck grows to three slots, the
  second a hole.
\<close>

theorem loadSingleCard_counterexample:
  "getStoredCards example_state FI = Some [Some \<lparr>tags = [3], content = ''vanha''\<rparr>]
   \<and> getStoredCards example_state EN = Some [Some \<lparr>tags = [3], content = ''old''\<rparr>]
   \<and> getStoredCards (loadSingleCard example_order 0 offline_fi_world 2 [2] [] example_state) FI
       = Some [Some \<lparr>tags = [3], content = ''vanha''\<rparr>]
   \<and> getStoredCards (loadSingleCard example_order 0 offline_fi_world 2 [2] [] example_state) EN
       = Some [Some \<lparr>tags = [3], content = ''old''\<rparr>, None,
               Some \<lparr>tags = [2], content = ''two''\<rparr>]"
  by (simp add: getStoredCards_def cards_of_def example_state_def loadSingleCard_def
      createCards_def fetchAndFilterCards_def fetchAndFilterCards_try_def offline_fi_world_def
      example_en_def filteredCards_def includedCards_def seededShuffle_def example_order_1_1
      languageData_set_def Language_values_def replace_card_def first_card_def array_assign_def
      Let_def)

text \<open>
  Claim C6, amended. For every stored state, integer index and pair of tag sets, and
  every language that has a stored deck, \<open>loadSingleCard\<close> leaves the element at every
  other index of that deck unchanged. If the refresh obtained no card for the language
  (its fetch failed or the filter kept nothing), the deck stays as it is. If it obtained
  cards and the index lies inside the deck, exactly the element at the index is
  replaced, by the first card of the freshly shuffled list.
\<close>

theorem loadSingleCard_replaces:
  assumes "getStoredCards st lang = Some cs"
  shows "\<exists>cs'. getStoredCards (loadSingleCard order untagged w idx inc exc st) lang = Some cs'
     \<and> (\<forall>j < length cs. int j \<noteq> idx \<longrightarrow> cs' ! j = cs ! j)
     \<and> (snd (fetchAndFilterCards order untagged w lang inc exc (random w)) = [] \<longrightarrow> cs' = cs)
     \<and> (\<forall>c rest. snd (fetchAndFilterCards order untagged w lang inc exc (random w)) = c # rest
            \<and> 0 \<le> idx \<and> idx < int (length cs) \<and> length cs < 2 ^ 32
          \<longrightarrow> cs' = cs[nat idx := Some c])"
proof (cases "snd (fetchAndFilterCards order untagged w lang inc exc (random w))")
  case Nil
  then show ?thesis using assms by (simp add: loadSingleCard_deck)
next
  case (Cons c rest)
  then show ?thesis using assms
    by (simp add: loadSingleCard_deck array_assign_frame array_assign_inside)
qed

theorem loadSingleCard_replaces_witness:
  "getStoredCards two_card_state FI
       = Some [Some \<lparr>tags = [3], content = ''vanha''\<rparr>, Some \<lparr>tags = [3], content = ''uusi''\<rparr>]
   \<and> getStoredCards (loadSingleCard example_order 0 example_world 1 [1] [] two_card_state) FI
       = Some [Some \<lparr>tags = [3], content = ''vanha''\<rparr>, Some \<lparr>tags = [1], content = ''kolme''\<rparr>]"
proof -
  let ?cs = "[Some \<lparr>tags = [3::nat], content = ''vanha''\<rparr>, Some \<lparr>tags = [3], content = ''uusi''\<rparr>]"
  have h: "getStoredCards two_card_state FI = Some ?cs"
    by (simp add: getStoredCards_def cards_of_def two_card_state_def)
  obtain cs' where
    a: "getStoredCards (loadSingleCard example_order 0 example_world 1 [1] [] two_card_state) FI
          = Some cs'" and
    b: "\<forall>c rest. snd (fetchAndFilterCards example_order 0 example_world FI [1] []
                        (random example_world)) = c # rest
            \<and> 0 \<le> (1::int) \<and> (1::int) < int (length ?cs) \<and> length ?cs < 2 ^ 32
          \<longrightarrow> cs' = ?cs[nat 1 := Some c]"
    using loadSingleCard_replaces [OF h, of example_order 0 example_world 1 "[1]" "[]"]
    by blast
  have "cs' = ?cs[nat 1 := Some \<lparr>tags = [1], content = ''kolme''\<rparr>]"
    using b example_shuffled_fi by simp
  then have "cs' = [Some \<lparr>tags = [3], content = ''vanha''\<rparr>, Some \<lparr>tags = [1], content = ''kolme''\<rparr>]"
    by simp
  with a h show ?thesis by simp
qed

subsection \<open>C7: setting an unsupported language\<close>

text \<open>
  Claim C7 says that a language value outside the enumeration leaves the selected
  language and the locale as they were and logs an error. The code tests only whether
  the value's string is non-empty: the value \<open>de\<close>, which is none of the supported
  codes, replaces both the stored selection and the locale, and nothing is logged.
\<close>

theorem setLanguage_unsupported:
  "''de'' \<notin> set (map Language_code Language_values)
   \<and> setLanguage ''de'' \<lparr>selectedLanguage = Some ''fi'', i18n_locale = Some ''fi'', ui_console = []\<rparr>
       = \<lparr>selectedLanguage = Some ''de'', i18n_locale = Some ''de'', ui_console = []\<rparr>"
  by (simp add: setLanguage_def Language_values_def Let_def)

subsection \<open>C8: filtering twice\<close>

text \<open>
  Claim C8. Filtering is idempotent: for every inclusion and exclusion tag set, the
  filter applied to a list that is already its output for the same tag sets returns
  that list unchanged.
\<close>

theorem filter_idempotent:
  "filteredCards untagged inc exc (filteredCards untagged inc exc cs)
     = filteredCards untagged inc exc cs"
  by (simp add: filteredCards_filter)

theorem filter_idempotent_witness:
  "filteredCards (0::nat) [0, 1] [2]
       [\<lparr>tags = [], content = ''a''\<rparr>, \<lparr>tags = [1], content = ''c''\<rparr>]
     = [\<lparr>tags = [], content = ''a''\<rparr>, \<lparr>tags = [1], content = ''c''\<rparr>]"
  using filter_idempotent [of 0 "[0, 1]" "[2]" example_mixed]
  by (simp add: filteredCards_def includedCards_def example_mixed_def)

subsection \<open>C9: no data from the creation step\<close>

text \<open>
  Claim C9. When \<open>createCards\<close> gives no data (\<open>null\<close>), \<open>loadCards\<close> returns \<open>0\<close> and
  writes nothing: the store, its mirror in \<open>localStorage\<close> and so the decks of every
  language are exactly as before.
\<close>

theorem createCards_failure_leaves_store:
  "loadCards_with w None st = (0, st)"
  by (simp add: loadCards_with_def)

subsection \<open>C10: reading a stored deck\<close>

text \<open>
  Claim C10. \<open>getStoredCards\<close> returns \<open>null\<close> only when the language has no stored
  deck (no entry for the language, or an entry without \<open>cards\<close>); when a deck is
  stored, it is returned as it is, and an empty deck is returned as the empty list,
  not as \<open>null\<close>.
\<close>

theorem getStoredCards_null:
  "(getStoredCards st lang = None \<longleftrightarrow>
      languageData st lang = None \<or> (\<exists>d. languageData st lang = Some d \<and> cards d = None))
   \<and> (languageData st lang = Some d \<and> cards d = Some cs \<longrightarrow> getStoredCards st lang = Some cs)
   \<and> (languageData st lang = Some d \<and> cards d = Some [] \<longrightarrow> getStoredCards st lang = Some [])"
  by (auto simp: getStoredCards_def cards_of_def split: option.splits)

theorem getStoredCards_null_witness:
  "getStoredCards fresh_state EN = Some [] \<and> getStoredCards fresh_state FI = None"
  using getStoredCards_null [of fresh_state EN "\<lparr>cards = Some [], language = EN\<rparr>" "[]"]
    getStoredCards_null [of fresh_state FI]
  by (simp add: fresh_state_def)

end
